theory Spec2Isabelle
  imports Complex_Main
begin

text \<open>
  The session acquisition, the pause and resume handling with its countdown compensation,
  and the score submission of the game, as \<^verbatim>\<open>js/initialization.js\<close> and
  \<^verbatim>\<open>js/view.js\<close> implement them.
\<close>

section \<open>JavaScript values\<close>

text \<open>
  The globals of \<^verbatim>\<open>js/initialization.js\<close> and \<^verbatim>\<open>js/view.js\<close> hold JavaScript values.
  The fragment that reaches them is: \<^verbatim>\<open>undefined\<close>, \<^verbatim>\<open>null\<close>, integral numbers and
  strings. Timestamps and countdown values are JavaScript numbers; they are modelled by
  exact integers and reals (no IEEE rounding, no \<^verbatim>\<open>NaN\<close>).
\<close>

datatype jsval = Undefined | Null | Num int | Str string

text \<open>\<^verbatim>\<open>ToBoolean\<close>: what \<^verbatim>\<open>!x\<close>, \<^verbatim>\<open>if (x)\<close> and \<^verbatim>\<open>x || y\<close> test.\<close>

fun truthy :: "jsval \<Rightarrow> bool" where
  "truthy Undefined = False"
| "truthy Null = False"
| "truthy (Num n) = (n \<noteq> 0)"
| "truthy (Str s) = (s \<noteq> [])"

text \<open>\<^verbatim>\<open>a || b\<close>\<close>

definition jor :: "jsval \<Rightarrow> jsval \<Rightarrow> jsval" where
  "jor a b = (if truthy a then a else b)"

text \<open>\<^verbatim>\<open>ToString\<close>, as string concatenation with \<^verbatim>\<open>+\<close> applies it.\<close>

fun nat_to_string :: "nat \<Rightarrow> string" where
  "nat_to_string n =
     (if n < 10 then [''0123456789'' ! n]
      else nat_to_string (n div 10) @ [''0123456789'' ! (n mod 10)])"

declare nat_to_string.simps [simp del]

fun to_string :: "jsval \<Rightarrow> string" where
  "to_string Undefined = ''undefined''"
| "to_string Null = ''null''"
| "to_string (Num n) = (if n < 0 then ''-'' @ nat_to_string (nat (- n)) else nat_to_string (nat n))"
| "to_string (Str s) = s"

section \<open>Globals and externally visible actions\<close>

type_synonym jsobj = "(string \<times> jsval) list"

text \<open>A message handed to the host: \<^verbatim>\<open>{type: ..., data: ...}\<close>; \<open>None\<close> when the
  object has no \<^verbatim>\<open>data\<close> property.\<close>

record message =
  mtype :: string
  mdata :: "jsobj option"

text \<open>The argument of \<^verbatim>\<open>fetch(url, {method, headers, body})\<close>. The body is the object
  that \<^verbatim>\<open>JSON.stringify\<close> serialises.\<close>

record request =
  url :: string
  http_method :: string
  headers :: "(string \<times> string) list"
  body :: jsobj

text \<open>Console output is recorded by its first argument, the message text.\<close>

datatype effect =
    ParentPostMessage message
  | CallHandler string "message option"
  | ConsoleLog string
  | ConsoleWarn string
  | ConsoleError string
  | AddMessageListener
  | WriteHighScores
  | Fetch request

text \<open>The two closures that \<^verbatim>\<open>pause\<close> hands to \<^verbatim>\<open>setTimeout\<close> (view.js 250-253 and
  267-269), and the re-poll of \<^verbatim>\<open>checkSessionAndUpdateUI\<close>.\<close>

datatype callback = ResumeSettle | PauseSettle | CheckSession

text \<open>
  The free-standing variables of the two files. \<open>gameState\<close>, \<open>prevGameState\<close>,
  \<open>gameTimer\<close>, \<open>gameTimerStartTime\<close> and \<open>gameTimerPausedElapsed\<close> are numbers or
  \<^verbatim>\<open>undefined\<close> (\<open>None\<close>). \<open>timeouts\<close> are the pending \<^verbatim>\<open>setTimeout\<close> callbacks with
  the time they become due; \<open>out\<close> is the trace of externally visible actions in program
  order. jQuery animation calls (\<^verbatim>\<open>fadeIn\<close>, \<^verbatim>\<open>fadeOut\<close>, \<^verbatim>\<open>showText\<close>,
  \<^verbatim>\<open>hideText\<close>) touch no global and are not traced.
\<close>

record globals =
  poolId :: jsval
  sessionId :: jsval
  authToken :: jsval
  gameTimerDuration :: int
  apiServerUrl :: jsval
  sessionReady :: bool
  score :: int
  gameState :: "int option"
  prevGameState :: "int option"
  pausable :: bool
  gameTimer :: "real option"
  gameTimerStartTime :: "real option"
  gameTimerPausedElapsed :: "real option"
  timeouts :: "(int \<times> callback) list"
  out :: "effect list"

definition emit :: "effect \<Rightarrow> globals \<Rightarrow> globals" where
  "emit e s = s\<lparr>out := out s @ [e]\<rparr>"

text \<open>\<^verbatim>\<open>setTimeout(cb, delay)\<close> called at time \<open>now\<close>.\<close>

definition setTimeout :: "callback \<Rightarrow> int \<Rightarrow> int \<Rightarrow> globals \<Rightarrow> globals" where
  "setTimeout cb delay now s = s\<lparr>timeouts := timeouts s @ [(now + delay, cb)]\<rparr>"

text \<open>The values the variable declarations of initialization.js 2-8, view.js 219 and
  \<^verbatim>\<open>initialize\<close> (initialization.js 256, 330, 355-358) give.\<close>

definition initial :: globals where
  "initial = \<lparr> poolId = Null, sessionId = Null, authToken = Null,
     gameTimerDuration = 15, apiServerUrl = Str ''https://api.metaninza.net'',
     sessionReady = False, score = 0, gameState = None, prevGameState = None,
     pausable = True, gameTimer = Some 15, gameTimerStartTime = None,
     gameTimerPausedElapsed = None, timeouts = [], out = [] \<rparr>"

section \<open>The browser environment\<close>

text \<open>
  \<^verbatim>\<open>window.__GAME_SESSION__\<close>, the object the host injects. A property that is missing
  reads as \<^verbatim>\<open>undefined\<close>. \<open>gs_expiresAt\<close> is a number of milliseconds when present.
\<close>

record game_session =
  gs_sessionId :: jsval
  gs_token :: jsval
  gs_poolId :: jsval
  gs_timerDuration :: jsval
  gs_timer :: jsval
  gs_apiServerUrl :: jsval
  gs_apiServer :: jsval
  gs_expiresAt :: "int option"

text \<open>
  What one run of a handler reads from the browser: the injected object (\<open>None\<close> when
  \<^verbatim>\<open>window.__GAME_SESSION__\<close> is not set), \<^verbatim>\<open>location.search\<close>, the builtin
  \<^verbatim>\<open>decodeURIComponent\<close> (\<open>None\<close> when it throws \<^verbatim>\<open>URIError\<close>), whether
  \<^verbatim>\<open>window.parent && window.parent !== window\<close> holds, whether
  \<^verbatim>\<open>window.flutter_inappwebview\<close> is present, and \<^verbatim>\<open>Date.now()\<close>.
\<close>

record env =
  GAME_SESSION :: "game_session option"
  search :: string
  decodeURIComponent :: "string \<Rightarrow> string option"
  in_frame :: bool
  webview :: bool
  now :: int

section \<open>Session acquisition (initialization.js)\<close>

subsection \<open>\<^verbatim>\<open>getUrlParameter\<close>\<close>

text \<open>
  initialization.js 13-18. Every call site passes a name made of letters, which the two
  \<^verbatim>\<open>replace\<close> calls leave as it is and which stands for itself in the pattern
  \<^verbatim>\<open>[\?&]name=([^&#]*)\<close>. \<open>regex_exec\<close> is the capture group of the leftmost match.
\<close>

fun regex_exec :: "string \<Rightarrow> string \<Rightarrow> string option" where
  "regex_exec name [] = None"
| "regex_exec name (c # cs) =
     (if (c = CHR ''?'' \<or> c = CHR ''&'') \<and> take (length name + 1) cs = name @ ''=''
      then Some (takeWhile (\<lambda>x. x \<noteq> CHR ''&'' \<and> x \<noteq> CHR ''#'') (drop (length name + 1) cs))
      else regex_exec name cs)"

definition plus_to_space :: "string \<Rightarrow> string" where
  "plus_to_space = map (\<lambda>c. if c = CHR ''+'' then CHR '' '' else c)"

definition getUrlParameter :: "env \<Rightarrow> string \<Rightarrow> string option" where
  "getUrlParameter e name =
     (case regex_exec name (search e) of
        None \<Rightarrow> Some []
      | Some raw \<Rightarrow> decodeURIComponent e (plus_to_space raw))"

text \<open>
  An instance of the builtin for concrete environments: it decodes the escapes of ASCII
  characters and is \<open>None\<close> on a malformed escape, where the builtin throws; escapes of
  bytes from \<open>0x80\<close> on are outside this instance and are \<open>None\<close> too.
\<close>

definition hex_val :: "char \<Rightarrow> nat option" where
  "hex_val c =
     (if c \<in> set ''0123456789'' then Some (of_char c - 48)
      else if c \<in> set ''abcdef'' then Some (of_char c - 87)
      else if c \<in> set ''ABCDEF'' then Some (of_char c - 55)
      else None)"

fun decode_ascii :: "string \<Rightarrow> string option" where
  "decode_ascii [] = Some []"
| "decode_ascii (c # cs) =
     (if c = CHR ''%''
      then (case cs of
              h1 # h2 # rest \<Rightarrow>
                (case (hex_val h1, hex_val h2) of
                   (Some a, Some b) \<Rightarrow>
                     if a < 8 then map_option ((#) (char_of (16 * a + b))) (decode_ascii rest)
                     else None
                 | _ \<Rightarrow> None)
            | _ \<Rightarrow> None)
      else map_option ((#) c) (decode_ascii cs))"

subsection \<open>\<^verbatim>\<open>parseInt(v) || 15\<close>\<close>

text \<open>
  \<^verbatim>\<open>parseInt\<close> with no radix: leading white space is skipped, a sign is read, a
  \<^verbatim>\<open>0x\<close> prefix selects base 16, and the longest run of digits is the value; \<open>None\<close>
  is \<^verbatim>\<open>NaN\<close>.
\<close>

definition is_space :: "char \<Rightarrow> bool" where
  "is_space c = (c \<in> set [CHR 0x09, CHR 0x0A, CHR 0x0B, CHR 0x0C, CHR 0x0D, CHR 0x20, CHR 0xA0])"

definition digit_in :: "nat \<Rightarrow> char \<Rightarrow> bool" where
  "digit_in radix c = (case hex_val c of None \<Rightarrow> False | Some d \<Rightarrow> d < radix)"

definition digits_value :: "nat \<Rightarrow> string \<Rightarrow> int option" where
  "digits_value radix cs =
     (let z = takeWhile (digit_in radix) cs
      in if z = [] then None
         else Some (int (foldl (\<lambda>acc c. acc * radix + the (hex_val c)) 0 z)))"

definition unsigned_value :: "string \<Rightarrow> int option" where
  "unsigned_value cs =
     (if take 2 cs = ''0x'' \<or> take 2 cs = ''0X'' then digits_value 16 (drop 2 cs)
      else digits_value 10 cs)"

definition parseInt :: "jsval \<Rightarrow> int option" where
  "parseInt v =
     (let cs = dropWhile is_space (to_string v)
      in case cs of
           [] \<Rightarrow> None
         | c # rest \<Rightarrow>
             if c = CHR ''-'' then map_option uminus (unsigned_value rest)
             else if c = CHR ''+'' then unsigned_value rest
             else unsigned_value cs)"

definition parseInt_or_15 :: "jsval \<Rightarrow> int" where
  "parseInt_or_15 v = (case parseInt v of None \<Rightarrow> 15 | Some n \<Rightarrow> if n = 0 then 15 else n)"

subsection \<open>\<^verbatim>\<open>initFlutterParams\<close>\<close>

text \<open>
  A run either returns or is cut short by the \<^verbatim>\<open>URIError\<close> of a \<^verbatim>\<open>getUrlParameter\<close>
  call; the globals keep what was assigned before the throw.
\<close>

datatype completion = Normal | Thrown

definition and_then ::
  "completion \<times> globals \<Rightarrow> (globals \<Rightarrow> completion \<times> globals) \<Rightarrow> completion \<times> globals" where
  "and_then r f = (case r of (Normal, s) \<Rightarrow> f s | (Thrown, s) \<Rightarrow> (Thrown, s))"

text \<open>\<^verbatim>\<open>x = getUrlParameter(name)\<close> followed by the rest of the block.\<close>

definition with_param ::
  "env \<Rightarrow> string \<Rightarrow> globals \<Rightarrow> (string \<Rightarrow> completion \<times> globals) \<Rightarrow> completion \<times> globals" where
  "with_param e name s k =
     (case getUrlParameter e name of None \<Rightarrow> (Thrown, s) | Some v \<Rightarrow> k v)"

definition request_message :: message where
  "request_message = \<lparr> mtype = ''requestSessionParams'', mdata = None \<rparr>"

text \<open>initialization.js 23-31.\<close>

definition request_params :: "env \<Rightarrow> globals \<Rightarrow> globals" where
  "request_params e s =
     (if GAME_SESSION e = None \<and> \<not> truthy (sessionId s) \<and> \<not> truthy (authToken s)
      then
        let s = emit (ConsoleLog ''Requesting Flutter for session parameters...'') s
        in if in_frame e then emit (ParentPostMessage request_message) s
           else if webview e then emit (CallHandler ''requestSessionParams'' None) s
           else s
      else s)"

text \<open>initialization.js 39: \<^verbatim>\<open>expiresAt && Date.now() > expiresAt\<close>.\<close>

definition expired :: "env \<Rightarrow> game_session \<Rightarrow> bool" where
  "expired e g = (case gs_expiresAt g of None \<Rightarrow> False | Some t \<Rightarrow> t \<noteq> 0 \<and> now e > t)"

text \<open>initialization.js 53-57 and 60-64.\<close>

definition injected_timer :: "game_session \<Rightarrow> globals \<Rightarrow> globals" where
  "injected_timer g s =
     (if gs_timerDuration g \<noteq> Undefined
      then s\<lparr>gameTimerDuration := parseInt_or_15 (gs_timerDuration g)\<rparr>
      else if gs_timer g \<noteq> Undefined
      then s\<lparr>gameTimerDuration := parseInt_or_15 (gs_timer g)\<rparr>
      else s)"

definition injected_server :: "game_session \<Rightarrow> globals \<Rightarrow> globals" where
  "injected_server g s =
     (if truthy (gs_apiServerUrl g) then s\<lparr>apiServerUrl := gs_apiServerUrl g\<rparr>
      else if truthy (gs_apiServer g) then s\<lparr>apiServerUrl := gs_apiServer g\<rparr>
      else s)"

text \<open>initialization.js 35-64: the branch taken when the injected object is present.\<close>

definition from_injected :: "env \<Rightarrow> game_session \<Rightarrow> globals \<Rightarrow> completion \<times> globals" where
  "from_injected e g s =
     (let s = s\<lparr>sessionId := gs_sessionId g, authToken := gs_token g\<rparr>;
          s = (if expired e g
               then (emit (ConsoleWarn ''Game session has expired'') s)
                      \<lparr>sessionId := Null, authToken := Null\<rparr>
               else s)
      in if truthy (gs_poolId g)
         then (Normal, injected_server g (injected_timer g (s\<lparr>poolId := gs_poolId g\<rparr>)))
         else with_param e ''poolId'' s
                (\<lambda>p. (Normal, injected_server g (injected_timer g (s\<lparr>poolId := Str p\<rparr>)))))"

text \<open>initialization.js 67-81: the branch taken when it is absent.\<close>

definition from_url :: "env \<Rightarrow> globals \<Rightarrow> completion \<times> globals" where
  "from_url e s =
     with_param e ''poolId'' s (\<lambda>p. let s = s\<lparr>poolId := Str p\<rparr> in
     with_param e ''sessionId'' s (\<lambda>i. let s = s\<lparr>sessionId := Str i\<rparr> in
     with_param e ''authToken'' s (\<lambda>a. let s = s\<lparr>authToken := Str a\<rparr> in
     with_param e ''timer'' s (\<lambda>urlTimer.
       let s = (if urlTimer \<noteq> [] then s\<lparr>gameTimerDuration := parseInt_or_15 (Str urlTimer)\<rparr>
                else s) in
     with_param e ''apiServerUrl'' s (\<lambda>u.
       if u \<noteq> [] then (Normal, s\<lparr>apiServerUrl := Str u\<rparr>)
       else with_param e ''apiServer'' s (\<lambda>u'.
              (Normal, if u' \<noteq> [] then s\<lparr>apiServerUrl := Str u'\<rparr> else s)))))))"

text \<open>initialization.js 85-107: the listener is added on every run inside a frame; its
  body runs later, on a message event, and is no part of the run.\<close>

definition add_listener :: "env \<Rightarrow> globals \<Rightarrow> globals" where
  "add_listener e s = (if in_frame e then emit AddMessageListener s else s)"

text \<open>initialization.js 110-117.\<close>

definition debug_step :: "env \<Rightarrow> globals \<Rightarrow> completion \<times> globals" where
  "debug_step e s =
     with_param e ''debug'' s (\<lambda>d.
       if d = ''true'' \<and> \<not> truthy (sessionId s) \<and> \<not> truthy (authToken s)
       then
         with_param e ''poolId'' s (\<lambda>p.
           let s = s\<lparr>poolId := jor (jor (Str p) (poolId s)) (Str ''test-pool-123'')\<rparr> in
         with_param e ''sessionId'' s (\<lambda>i.
           let s = s\<lparr>sessionId := jor (jor (Str i) (sessionId s)) (Str ''test-session-456'')\<rparr> in
         with_param e ''authToken'' s (\<lambda>a.
           let s = s\<lparr>authToken := jor (jor (Str a) (authToken s)) (Str ''test-token-789'')\<rparr>
           in (Normal, emit (ConsoleLog ''DEBUG MODE: Using test parameters'') s))))
       else (Normal, s))"

text \<open>initialization.js 120-131.\<close>

definition ready_step :: "globals \<Rightarrow> globals" where
  "ready_step s =
     (if truthy (sessionId s) \<and> truthy (authToken s)
      then emit (ConsoleLog ''Flutter session initialized successfully'') (s\<lparr>sessionReady := True\<rparr>)
      else emit (ConsoleLog ''Flutter session parameters not found - waiting for session...'')
             (s\<lparr>sessionReady := False\<rparr>))"

definition initFlutterParams :: "env \<Rightarrow> globals \<Rightarrow> completion \<times> globals" where
  "initFlutterParams e s =
     (let s = request_params e s
      in and_then (case GAME_SESSION e of
                     Some g \<Rightarrow> from_injected e g s
                   | None \<Rightarrow> from_url e s)
           (\<lambda>s. and_then (debug_step e (add_listener e s))
                   (\<lambda>s. (Normal, ready_step s))))"

text \<open>initialization.js 167-180: one polling cycle. The next cycle is scheduled only
  when the run returns and the session is not ready.\<close>

definition checkSessionAndUpdateUI :: "env \<Rightarrow> globals \<Rightarrow> completion \<times> globals" where
  "checkSessionAndUpdateUI e s =
     and_then (initFlutterParams e s)
       (\<lambda>s. (Normal, if \<not> sessionReady s then setTimeout CheckSession 500 (now e) s else s))"

text \<open>initialization.js 149-164.\<close>

definition sendMessageToFlutter :: "env \<Rightarrow> string \<Rightarrow> jsobj \<Rightarrow> globals \<Rightarrow> globals" where
  "sendMessageToFlutter e ty dat s =
     (let m = \<lparr> mtype = ty, mdata = Some dat \<rparr>
      in if in_frame e then emit (ParentPostMessage m) s
         else if webview e then emit (CallHandler ''onMessage'' (Some m)) s
         else emit (ConsoleLog ''Flutter message:'') s)"

section \<open>Score submission (view.js, \<^verbatim>\<open>submitScoreToFlutter\<close>)\<close>

text \<open>view.js 177-189: the \<^verbatim>\<open>time\<close> field.\<close>

definition timeTaken :: "int \<Rightarrow> real option \<Rightarrow> int" where
  "timeTaken duration timer =
     (let t = (case timer of
                 None \<Rightarrow> duration
               | Some g \<Rightarrow> if g > 0 then \<lceil>of_int duration - g\<rceil> else duration)
      in max 1 (min duration t))"

text \<open>view.js 191-204: the request. The base of the URL is the literal of line 191.\<close>

definition submit_url :: "globals \<Rightarrow> string" where
  "submit_url s = ''http://192.168.29.71:5006/api/v1/game-pools/'' @ to_string (poolId s)
       @ ''/sessions/'' @ to_string (sessionId s) @ ''/submit-score''"

definition submit_request :: "globals \<Rightarrow> request" where
  "submit_request s =
     \<lparr> url = submit_url s,
       http_method = ''POST'',
       headers = [(''Content-Type'', ''application/json''),
                  (''Authorization'', ''Bearer '' @ to_string (authToken s))],
       body = [(''score'', Num (score s)),
               (''time'', Num (timeTaken (gameTimerDuration s) (gameTimer s)))] \<rparr>"

definition submitScoreToFlutter :: "globals \<Rightarrow> globals" where
  "submitScoreToFlutter s =
     (if \<not> truthy (poolId s) \<or> \<not> truthy (sessionId s) \<or> \<not> truthy (authToken s)
      then emit (ConsoleLog ''Flutter parameters not available. Score not submitted.'') s
      else emit (Fetch (submit_request s)) s)"

text \<open>
  How the promise returned by \<^verbatim>\<open>fetch\<close> settles: rejected (no response), or fulfilled
  with a response whose \<^verbatim>\<open>json()\<close> either yields the parsed body or rejects.
\<close>

record response =
  ok :: bool
  status :: int
  json :: "string option"

datatype fetch_result = NoResponse string | Responded response

datatype 'a promise = Fulfilled 'a | Rejected string

text \<open>view.js 205-210: the first \<^verbatim>\<open>then\<close>.\<close>

definition then_check :: "fetch_result \<Rightarrow> string promise" where
  "then_check r =
     (case r of
        NoResponse e \<Rightarrow> Rejected e
      | Responded resp \<Rightarrow>
          if \<not> ok resp then Rejected ''Network response was not ok''
          else (case json resp of
                  None \<Rightarrow> Rejected ''SyntaxError''
                | Some d \<Rightarrow> Fulfilled d))"

text \<open>view.js 211-216: the second \<^verbatim>\<open>then\<close> and the \<^verbatim>\<open>catch\<close>. The result is the
  state of the last promise of the chain and the globals.\<close>

definition fetch_settled :: "fetch_result \<Rightarrow> globals \<Rightarrow> unit promise \<times> globals" where
  "fetch_settled r s =
     (case then_check r of
        Fulfilled d \<Rightarrow> (Fulfilled (), emit (ConsoleLog ''Score submitted successfully:'') s)
      | Rejected e \<Rightarrow> (Fulfilled (), emit (ConsoleError ''Error submitting score:'') s))"

text \<open>An action that reaches the host.\<close>

fun host_message :: "effect \<Rightarrow> bool" where
  "host_message (ParentPostMessage m) = True"
| "host_message (CallHandler h m) = True"
| "host_message e = False"

fun is_fetch :: "effect \<Rightarrow> bool" where
  "is_fetch (Fetch r) = True"
| "is_fetch e = False"

fun is_request :: "effect \<Rightarrow> bool" where
  "is_request (ParentPostMessage m) = (mtype m = ''requestSessionParams'')"
| "is_request (CallHandler h m) = (h = ''requestSessionParams'')"
| "is_request e = False"

section \<open>Pause and resume (view.js, \<^verbatim>\<open>pause\<close>)\<close>

text \<open>view.js 245-249.\<close>

definition resume_adjust :: "int \<Rightarrow> globals \<Rightarrow> globals" where
  "resume_adjust t s =
     (case (gameTimerPausedElapsed s, gameTimerStartTime s) of
        (Some elapsed, Some start) \<Rightarrow>
          if prevGameState s = Some 1
          then (let pauseDuration = of_int t - (start + elapsed * 1000)
                in s\<lparr>gameTimerStartTime := Some (start + pauseDuration),
                     gameTimerPausedElapsed := None\<rparr>)
          else s
      | _ \<Rightarrow> s)"

text \<open>view.js 263-266.\<close>

definition pause_snapshot :: "int \<Rightarrow> globals \<Rightarrow> globals" where
  "pause_snapshot t s =
     (case gameTimerStartTime s of
        Some start \<Rightarrow> s\<lparr>gameTimerPausedElapsed := Some ((of_int t - start) / 1000)\<rparr>
      | None \<Rightarrow> s)"

text \<open>view.js 220-272, called at time \<open>t\<close>. The argument \<open>o\<close> only selects the overlay
  text.\<close>

definition pause :: "bool \<Rightarrow> int \<Rightarrow> globals \<Rightarrow> globals" where
  "pause o' t s =
     (if gameState s = Some 0 \<or> gameState s = Some 2 \<or> \<not> pausable s then s
      else
        let s = emit WriteHighScores (s\<lparr>pausable := False\<rparr>)
        in if gameState s = Some (- 1)
           then setTimeout ResumeSettle 400 t (resume_adjust t s)
           else if gameState s \<noteq> Some (- 2) \<and> gameState s \<noteq> Some 0 \<and> gameState s \<noteq> Some 2
           then (setTimeout PauseSettle 400 t
                   (pause_snapshot t (s\<lparr>prevGameState := gameState s\<rparr>)))
                  \<lparr>gameState := Some (- 1)\<rparr>
           else s)"

text \<open>initialization.js 479-483; \<^verbatim>\<open>pause()\<close> is called without an argument.\<close>

definition handlePause :: "int \<Rightarrow> globals \<Rightarrow> globals" where
  "handlePause t s = (if gameState s = Some 1 \<or> gameState s = Some 2 then pause False t s else s)"

text \<open>The bodies of the callbacks: view.js 251-252, view.js 268, and the re-poll.\<close>

definition run_callback :: "env \<Rightarrow> callback \<Rightarrow> globals \<Rightarrow> completion \<times> globals" where
  "run_callback e cb s =
     (case cb of
        ResumeSettle \<Rightarrow> (Normal, s\<lparr>gameState := prevGameState s, pausable := True\<rparr>)
      | PauseSettle \<Rightarrow> (Normal, s\<lparr>pausable := True\<rparr>)
      | CheckSession \<Rightarrow> checkSessionAndUpdateUI e s)"

text \<open>The \<open>i\<close>-th pending callback leaves the queue and runs. The queue keeps the time
  each callback became due; a browser runs it no earlier, and how much later is not fixed.\<close>

definition fire :: "env \<Rightarrow> nat \<Rightarrow> globals \<Rightarrow> completion \<times> globals" where
  "fire e i s =
     (if i < length (timeouts s)
      then run_callback e (snd (timeouts s ! i))
             (s\<lparr>timeouts := take i (timeouts s) @ drop (Suc i) (timeouts s)\<rparr>)
      else (Normal, s))"

section \<open>The countdown\<close>

text \<open>
  Modelled from the spec: the game loop, which reads the countdown, is not among the
  sources. Section 4.3: \<^verbatim>\<open>remaining()\<close> is the full duration if the timer is not
  started, else \<^verbatim>\<open>max(0, duration - (now - startedAt))\<close>. The duration is in seconds and
  the timestamps of the code are in milliseconds, as in step 2.3 of
  FLUTTER_INTEGRATION_GUIDE.md.
\<close>

definition remaining :: "int \<Rightarrow> int \<Rightarrow> real option \<Rightarrow> real" where
  "remaining duration t startedAt =
     (case startedAt of
        None \<Rightarrow> of_int duration
      | Some start \<Rightarrow> max 0 (of_int duration - (of_int t - start) / 1000))"

section \<open>Concrete inputs\<close>

text \<open>Game over with an empty session id and an empty token.\<close>

definition empty_identity :: globals where
  "empty_identity = initial\<lparr>poolId := Str ''pool-1'', sessionId := Str [], authToken := Str []\<rparr>"

text \<open>Game over with a session id and a token, and no pool id.\<close>

definition no_pool :: globals where
  "no_pool = initial\<lparr>poolId := Str [], sessionId := Str ''sess-1'', authToken := Str ''tok-1''\<rparr>"

text \<open>Game over by board overflow with 3.5 seconds left of 15.\<close>

definition early_end :: globals where
  "early_end = initial\<lparr>gameTimer := Some (7 / 2)\<rparr>"

text \<open>Game over with a countdown above the duration: the raw elapsed time is negative.\<close>

definition overrun :: globals where
  "overrun = initial\<lparr>gameTimer := Some 20\<rparr>"

text \<open>Game over by expiry with a complete session and the default server URL.\<close>

definition usable :: globals where
  "usable = initial\<lparr>poolId := Str ''pool-1'', sessionId := Str ''sess-1'',
     authToken := Str ''tok-1'', score := 120, gameTimer := Some 0\<rparr>"

text \<open>The server answers 500 with a body that is not JSON.\<close>

definition server_error :: fetch_result where
  "server_error = Responded \<lparr> ok = False, status = 500, json = None \<rparr>"

text \<open>A game in play whose countdown started at time 0.\<close>

definition playing :: globals where
  "playing = initial\<lparr>gameState := Some 1, gameTimerStartTime := Some 0\<rparr>"

text \<open>An injected session that expired at 1000, read at 2000, with both identity
  parameters in the query string; the same with the debug flag.\<close>

definition expired_session :: game_session where
  "expired_session = \<lparr> gs_sessionId = Str ''sess-1'', gs_token = Str ''tok-1'',
     gs_poolId = Str ''pool-1'', gs_timerDuration = Num 30, gs_timer = Undefined,
     gs_apiServerUrl = Undefined, gs_apiServer = Undefined, gs_expiresAt = Some 1000 \<rparr>"

definition expired_env :: env where
  "expired_env = \<lparr> GAME_SESSION = Some expired_session,
     search = ''?sessionId=x&authToken=y'', decodeURIComponent = decode_ascii,
     in_frame = False, webview = True, now = 2000 \<rparr>"

definition expired_debug_env :: env where
  "expired_debug_env = expired_env\<lparr>search := ''?debug=true&sessionId=x&authToken=y''\<rparr>"

text \<open>No injected object, inside a frame, with both identity parameters in the query
  string; with only the debug flag; with the debug flag and a pool id.\<close>

definition query_env :: env where
  "query_env = \<lparr> GAME_SESSION = None, search = ''?sessionId=x&authToken=y'',
     decodeURIComponent = decode_ascii, in_frame = True, webview = False, now = 2000 \<rparr>"

definition debug_env :: env where
  "debug_env = query_env\<lparr>search := ''?debug=true''\<rparr>"

definition debug_pool_env :: env where
  "debug_pool_env = query_env\<lparr>search := ''?debug=true&poolId=real-pool''\<rparr>"

text \<open>No injected object and an empty query string, inside the in-app web view.\<close>

definition waiting_env :: env where
  "waiting_env = \<lparr> GAME_SESSION = None, search = [], decodeURIComponent = decode_ascii,
     in_frame = False, webview = True, now = 2000 \<rparr>"

section \<open>Auxiliary facts\<close>

lemmas eval_env = getUrlParameter_def plus_to_space_def expired_env_def expired_debug_env_def
  query_env_def debug_env_def debug_pool_env_def waiting_env_def expired_session_def expired_def

lemmas eval_init = initFlutterParams_def request_params_def from_url_def from_injected_def
  injected_timer_def injected_server_def with_param_def and_then_def debug_step_def
  add_listener_def ready_step_def emit_def jor_def initial_def request_message_def

lemma out_emit: "out (emit x s) = out s @ [x]"
  by (simp add: emit_def)

lemma submit_skipped:
  "\<not> truthy (poolId s) \<or> \<not> truthy (sessionId s) \<or> \<not> truthy (authToken s) \<Longrightarrow>
   submitScoreToFlutter s =
     emit (ConsoleLog ''Flutter parameters not available. Score not submitted.'') s"
  by (simp add: submitScoreToFlutter_def)

lemma snd_and_then:
  "snd (and_then r f) = (case fst r of Normal \<Rightarrow> snd (f (snd r)) | Thrown \<Rightarrow> snd r)"
  by (cases r) (simp add: and_then_def split: completion.splits)

lemma fst_and_then:
  "fst (and_then r f) = (case fst r of Normal \<Rightarrow> fst (f (snd r)) | Thrown \<Rightarrow> Thrown)"
  by (cases r) (simp add: and_then_def split: completion.splits)

lemma init_injected:
  "GAME_SESSION e = Some g \<Longrightarrow>
   initFlutterParams e s =
     and_then (from_injected e g (request_params e s))
       (\<lambda>s. and_then (debug_step e (add_listener e s)) (\<lambda>s. (Normal, ready_step s)))"
  by (simp add: initFlutterParams_def)

lemma init_url:
  "GAME_SESSION e = None \<Longrightarrow>
   initFlutterParams e s =
     and_then (from_url e (request_params e s))
       (\<lambda>s. and_then (debug_step e (add_listener e s)) (\<lambda>s. (Normal, ready_step s)))"
  by (simp add: initFlutterParams_def)

subsection \<open>What each step of a poll leaves on the trace\<close>

lemma out_from_url: "out (snd (from_url e s)) = out s"
  by (simp add: from_url_def with_param_def Let_def split: option.splits)

lemma requests_from_injected:
  "filter is_request (out (snd (from_injected e g s))) = filter is_request (out s)"
  by (simp add: from_injected_def injected_timer_def injected_server_def with_param_def
      Let_def out_emit split: option.splits)

lemma requests_add_listener:
  "filter is_request (out (add_listener e s)) = filter is_request (out s)"
  by (simp add: add_listener_def out_emit)

lemma requests_debug_step:
  "filter is_request (out (snd (debug_step e s))) = filter is_request (out s)"
  by (simp add: debug_step_def with_param_def Let_def out_emit split: option.splits)

lemma requests_ready_step:
  "filter is_request (out (ready_step s)) = filter is_request (out s)"
  by (simp add: ready_step_def out_emit)

lemma requests_request_params:
  "filter is_request (out (request_params e s)) =
     filter is_request (out s) @
     (if GAME_SESSION e = None \<and> \<not> truthy (sessionId s) \<and> \<not> truthy (authToken s)
      then if in_frame e then [ParentPostMessage request_message]
           else if webview e then [CallHandler ''requestSessionParams'' None]
           else []
      else [])"
  by (simp add: request_params_def out_emit Let_def request_message_def)

lemma requests_after_request_params:
  "filter is_request (out (snd (initFlutterParams e s))) =
     filter is_request (out (request_params e s))"
proof -
  let ?s0 = "request_params e s"
  let ?r = "case GAME_SESSION e of Some g \<Rightarrow> from_injected e g ?s0 | None \<Rightarrow> from_url e ?s0"
  have acq: "filter is_request (out (snd ?r)) = filter is_request (out ?s0)"
    by (simp add: out_from_url requests_from_injected split: option.splits)
  have rest: "filter is_request (out (snd (and_then (debug_step e (add_listener e s'))
                   (\<lambda>s. (Normal, ready_step s))))) = filter is_request (out s')" for s'
    by (simp add: snd_and_then requests_ready_step requests_debug_step requests_add_listener
        split: completion.splits)
  show ?thesis
    unfolding initFlutterParams_def Let_def
    by (simp add: snd_and_then [of ?r] rest acq split: completion.splits)
qed

subsection \<open>What each step of a poll does to the identity fields\<close>

lemma injected_expired:
  assumes "expired e g"
  shows "sessionId (snd (from_injected e g s)) = Null"
    and "authToken (snd (from_injected e g s)) = Null"
  using assms
  by (simp_all add: from_injected_def injected_timer_def injected_server_def with_param_def
      Let_def emit_def split: option.splits)

lemma injected_returns:
  "truthy (gs_poolId g) \<or> getUrlParameter e ''poolId'' \<noteq> None \<Longrightarrow>
   fst (from_injected e g s) = Normal"
  by (auto simp add: from_injected_def with_param_def Let_def split: option.splits)

lemma url_returns:
  assumes "getUrlParameter e ''poolId'' = Some p"
    and "getUrlParameter e ''sessionId'' = Some i"
    and "getUrlParameter e ''authToken'' = Some a"
    and "getUrlParameter e ''timer'' = Some tm"
    and "getUrlParameter e ''apiServerUrl'' = Some u"
    and "getUrlParameter e ''apiServer'' = Some u'"
  shows "fst (from_url e s) = Normal"
    and "poolId (snd (from_url e s)) = Str p"
    and "sessionId (snd (from_url e s)) = Str i"
    and "authToken (snd (from_url e s)) = Str a"
  using assms by (simp_all add: from_url_def with_param_def Let_def)

lemma add_listener_fields:
  "poolId (add_listener e s) = poolId s"
  "sessionId (add_listener e s) = sessionId s"
  "authToken (add_listener e s) = authToken s"
  by (simp_all add: add_listener_def emit_def)

lemma ready_step_fields:
  "poolId (ready_step s) = poolId s"
  "sessionId (ready_step s) = sessionId s"
  "authToken (ready_step s) = authToken s"
  "sessionReady (ready_step s) = (truthy (sessionId s) \<and> truthy (authToken s))"
  by (simp_all add: ready_step_def emit_def)

lemma debug_inert:
  "getUrlParameter e ''debug'' \<noteq> Some ''true'' \<Longrightarrow> snd (debug_step e s) = s"
  by (simp add: debug_step_def with_param_def split: option.splits)

lemma debug_active:
  assumes "getUrlParameter e ''debug'' = Some ''true''"
    and "\<not> truthy (sessionId s)" and "\<not> truthy (authToken s)"
    and "getUrlParameter e ''poolId'' = Some p"
    and "getUrlParameter e ''sessionId'' = Some i"
    and "getUrlParameter e ''authToken'' = Some a"
  shows "debug_step e s =
     (Normal, emit (ConsoleLog ''DEBUG MODE: Using test parameters'')
        (s\<lparr>poolId := (if p \<noteq> [] then Str p else if truthy (poolId s) then poolId s
                       else Str ''test-pool-123''),
           sessionId := (if i \<noteq> [] then Str i else Str ''test-session-456''),
           authToken := (if a \<noteq> [] then Str a else Str ''test-token-789'')\<rparr>))"
  using assms by (simp add: debug_step_def with_param_def jor_def Let_def)

subsection \<open>The two branches of \<^verbatim>\<open>pause\<close>\<close>

lemma pause_dropped: "\<not> pausable s \<Longrightarrow> pause o' t s = s"
  by (simp add: pause_def)

lemma handlePause_dropped: "\<not> pausable s \<Longrightarrow> handlePause t s = s"
  by (simp add: handlePause_def pause_def)

lemma pause_taken:
  assumes "pausable s" and "gameState s \<noteq> Some 0" and "gameState s \<noteq> Some 2"
    and "gameState s \<noteq> Some (- 1)" and "gameState s \<noteq> Some (- 2)"
  shows "pause o' t s =
     (pause_snapshot t s)\<lparr>pausable := False, out := out s @ [WriteHighScores],
        prevGameState := gameState s, timeouts := timeouts s @ [(t + 400, PauseSettle)],
        gameState := Some (- 1)\<rparr>"
  using assms
  by (simp add: pause_def emit_def setTimeout_def pause_snapshot_def Let_def split: option.splits)

lemma resume_taken:
  assumes "pausable s" and "gameState s = Some (- 1)"
  shows "pause o' t s =
     (resume_adjust t s)\<lparr>pausable := False, out := out s @ [WriteHighScores],
        timeouts := timeouts s @ [(t + 400, ResumeSettle)]\<rparr>"
  using assms
  by (simp add: pause_def emit_def setTimeout_def resume_adjust_def Let_def split: option.splits)

lemma resume_adjust_state:
  "gameState (resume_adjust t s) = gameState s"
  "prevGameState (resume_adjust t s) = prevGameState s"
  by (simp_all add: resume_adjust_def Let_def split: option.splits)

lemma fire_last:
  "timeouts s = q @ [(d, cb)] \<Longrightarrow> fire e (length q) s = run_callback e cb (s\<lparr>timeouts := q\<rparr>)"
  by (simp add: fire_def nth_append)

lemma shift_start:
  "(st::real) + (of_int (t1 + p) - (st + (of_int t1 - st) / 1000 * 1000)) = st + of_int p"
  by (simp add: field_simps)

section \<open>The claims\<close>

text \<open>
  C1. A game in play whose countdown has started is paused at time \<open>t1\<close>; the settling
  callback runs; the game is resumed at time \<open>t1 + p\<close>, \<open>p \<ge> 0\<close>. The pause stores the
  elapsed seconds, the resume moves the start time forward by exactly \<open>p\<close> and clears the
  stored value, and the countdown read at \<open>t1 + p\<close> equals the countdown read at \<open>t1\<close>.
\<close>

theorem pause_resume_keeps_remaining:
  assumes "gameState s = Some 1" and "pausable s" and "gameTimerStartTime s = Some st"
    and "0 \<le> p"
  shows "let s1 = snd (fire e (length (timeouts s)) (pause o1 t1 s));
             s2 = pause o2 (t1 + p) s1
         in gameTimerPausedElapsed s1 = Some ((of_int t1 - st) / 1000) \<and>
            gameTimerStartTime s2 = Some (st + of_int p) \<and>
            gameTimerPausedElapsed s2 = None \<and>
            remaining d (t1 + p) (gameTimerStartTime s2) = remaining d t1 (gameTimerStartTime s)"
proof -
  let ?s1 = "snd (fire e (length (timeouts s)) (pause o1 t1 s))"
  have s1: "?s1 = (pause_snapshot t1 s)\<lparr>pausable := True, out := out s @ [WriteHighScores],
        prevGameState := Some 1, timeouts := timeouts s, gameState := Some (- 1)\<rparr>"
    using assms(1,2) by (simp add: pause_taken fire_last run_callback_def)
  have snap: "gameTimerPausedElapsed ?s1 = Some ((of_int t1 - st) / 1000)"
    "gameTimerStartTime ?s1 = Some st" "prevGameState ?s1 = Some 1"
    "pausable ?s1" "gameState ?s1 = Some (- 1)"
    using assms(3) by (simp_all add: s1 pause_snapshot_def)
  have "pause o2 (t1 + p) ?s1 = (resume_adjust (t1 + p) ?s1)\<lparr>pausable := False,
        out := out ?s1 @ [WriteHighScores],
        timeouts := timeouts ?s1 @ [(t1 + p + 400, ResumeSettle)]\<rparr>"
    using snap(4,5) by (rule resume_taken)
  moreover have "gameTimerStartTime (resume_adjust (t1 + p) ?s1) = Some (st + of_int p)"
    "gameTimerPausedElapsed (resume_adjust (t1 + p) ?s1) = None"
    using snap(1,2,3) shift_start [of st t1 p] by (simp_all add: resume_adjust_def)
  ultimately have "gameTimerStartTime (pause o2 (t1 + p) ?s1) = Some (st + of_int p)"
    "gameTimerPausedElapsed (pause o2 (t1 + p) ?s1) = None"
    by simp_all
  then show ?thesis
    using snap(1) assms(3) by (simp add: Let_def remaining_def)
qed

text \<open>Duration 15, start at 0, pause at 5000 for 3000: 10 seconds remain before and after.\<close>

theorem pause_resume_keeps_remaining_witness:
  "gameState playing = Some 1 \<and> pausable playing \<and> gameTimerStartTime playing = Some 0 \<and>
   remaining 15 5000 (gameTimerStartTime playing) = 10 \<and>
   gameTimerStartTime
     (pause False 8000 (snd (fire waiting_env 0 (pause False 5000 playing)))) = Some 3000 \<and>
   remaining 15 8000 (gameTimerStartTime
     (pause False 8000 (snd (fire waiting_env 0 (pause False 5000 playing))))) = 10"
  using pause_resume_keeps_remaining [of playing 0 3000 waiting_env False 5000 False 15]
  by (simp add: playing_def initial_def remaining_def Let_def)

text \<open>
  C2. A submission that reaches \<^verbatim>\<open>fetch\<close> posts to the address built from the literal
  base of view.js 191, the pool id and the session id; the request does not depend on
  \<open>apiServerUrl\<close>. It is a POST with the header \<^verbatim>\<open>Authorization: Bearer\<close> followed by the
  token and a body of the two fields \<^verbatim>\<open>score\<close> and \<^verbatim>\<open>time\<close>.
\<close>

theorem submit_request_ignores_api_server:
  assumes "truthy (poolId s)" and "truthy (sessionId s)" and "truthy (authToken s)"
  shows "submitScoreToFlutter s = emit (Fetch (submit_request s)) s \<and>
         url (submit_request s) =
           ''http://192.168.29.71:5006'' @ ''/api/v1/game-pools/'' @ to_string (poolId s) @
           ''/sessions/'' @ to_string (sessionId s) @ ''/submit-score'' \<and>
         submit_request (s\<lparr>apiServerUrl := u\<rparr>) = submit_request s \<and>
         http_method (submit_request s) = ''POST'' \<and>
         map_of (headers (submit_request s)) ''Authorization'' =
           Some (''Bearer '' @ to_string (authToken s)) \<and>
         map fst (body (submit_request s)) = [''score'', ''time''] \<and>
         map_of (body (submit_request s)) ''score'' = Some (Num (score s))"
  using assms by (simp add: submitScoreToFlutter_def submit_request_def submit_url_def)

theorem submit_request_ignores_api_server_witness:
  "truthy (poolId usable) \<and> truthy (sessionId usable) \<and> truthy (authToken usable) \<and>
   apiServerUrl usable = Str ''https://api.metaninza.net'' \<and>
   out (submitScoreToFlutter usable) =
     [Fetch \<lparr> url = ''http://192.168.29.71:5006/api/v1/game-pools/pool-1/sessions/sess-1/submit-score'',
              http_method = ''POST'',
              headers = [(''Content-Type'', ''application/json''),
                         (''Authorization'', ''Bearer tok-1'')],
              body = [(''score'', Num 120), (''time'', Num 15)] \<rparr>]"
  using submit_request_ignores_api_server [of usable]
  by (simp add: usable_def initial_def submit_request_def submit_url_def timeTaken_def emit_def)

text \<open>
  C3. However the request settles, the last promise of the chain is fulfilled, so no
  rejection is left unhandled; and the submission with its handlers adds no message to the
  host to the trace: the outcome goes to the console only.
\<close>

theorem settled_submission_sends_host_nothing:
  "fst (fetch_settled r (submitScoreToFlutter s)) = Fulfilled () \<and>
   filter host_message (out (snd (fetch_settled r (submitScoreToFlutter s)))) =
     filter host_message (out s)"
  by (simp add: fetch_settled_def submitScoreToFlutter_def emit_def split: promise.splits)

theorem settled_submission_sends_host_nothing_witness:
  "out (snd (fetch_settled server_error (submitScoreToFlutter usable))) =
     [Fetch (submit_request usable), ConsoleError ''Error submitting score:''] \<and>
   filter host_message (out (snd (fetch_settled server_error (submitScoreToFlutter usable)))) = []"
  using settled_submission_sends_host_nothing [of server_error usable]
  by (simp add: server_error_def fetch_settled_def then_check_def submitScoreToFlutter_def
      usable_def initial_def emit_def)

text \<open>
  C4. With a configured duration of at least one second, the \<^verbatim>\<open>time\<close> field of the
  request body is a whole number between 1 and the duration: the duration when the
  countdown is undefined or has reached zero, and otherwise the ceiling of duration minus
  countdown, raised to 1 when that is zero or negative.
\<close>

theorem time_field_in_range:
  assumes "1 \<le> gameTimerDuration s"
  shows "\<exists>t. map_of (body (submit_request s)) ''time'' = Some (Num t) \<and>
             1 \<le> t \<and> t \<le> gameTimerDuration s \<and>
             t = (case gameTimer s of
                    None \<Rightarrow> gameTimerDuration s
                  | Some g \<Rightarrow> if 0 < g then max 1 \<lceil>of_int (gameTimerDuration s) - g\<rceil>
                              else gameTimerDuration s)"
proof -
  let ?d = "gameTimerDuration s"
  have le: "\<lceil>of_int ?d - g\<rceil> \<le> ?d" if "0 < g" for g :: real
    using that by (simp add: ceiling_le_iff)
  have "timeTaken ?d (gameTimer s) =
          (case gameTimer s of None \<Rightarrow> ?d
           | Some g \<Rightarrow> if 0 < g then max 1 \<lceil>of_int ?d - g\<rceil> else ?d)"
  proof (cases "gameTimer s")
    case None
    then show ?thesis using assms by (simp add: timeTaken_def)
  next
    case (Some g)
    show ?thesis
    proof (cases "0 < g")
      case True
      then have "min ?d \<lceil>of_int ?d - g\<rceil> = \<lceil>of_int ?d - g\<rceil>"
        using le [of g] by (simp add: min_absorb2)
      then show ?thesis using Some True by (simp add: timeTaken_def)
    next
      case False
      then show ?thesis using Some assms by (simp add: timeTaken_def)
    qed
  qed
  moreover have "1 \<le> timeTaken ?d (gameTimer s)" "timeTaken ?d (gameTimer s) \<le> ?d"
    using assms by (simp_all add: timeTaken_def Let_def)
  ultimately show ?thesis
    by (simp add: submit_request_def)
qed

theorem time_field_in_range_witness:
  "1 \<le> gameTimerDuration early_end \<and>
   map_of (body (submit_request early_end)) ''time'' = Some (Num 12) \<and>
   1 \<le> gameTimerDuration overrun \<and>
   map_of (body (submit_request overrun)) ''time'' = Some (Num 1)"
  using time_field_in_range [of early_end] time_field_in_range [of overrun]
  by (simp add: early_end_def overrun_def initial_def submit_request_def timeTaken_def)

text \<open>
  C5. When the session id and the token are both empty at game over, the submission only
  logs that the score is not submitted: no request is built and none is sent.
\<close>

theorem no_request_without_identity:
  assumes "\<not> truthy (sessionId s)" and "\<not> truthy (authToken s)"
  shows "submitScoreToFlutter s =
           emit (ConsoleLog ''Flutter parameters not available. Score not submitted.'') s \<and>
         filter is_fetch (out (submitScoreToFlutter s)) = filter is_fetch (out s)"
  using assms by (simp add: submit_skipped out_emit)

theorem no_request_without_identity_witness:
  "\<not> truthy (sessionId empty_identity) \<and> \<not> truthy (authToken empty_identity) \<and>
   out (submitScoreToFlutter empty_identity) =
     [ConsoleLog ''Flutter parameters not available. Score not submitted.'']"
  using no_request_without_identity [of empty_identity]
  by (simp add: empty_identity_def initial_def emit_def)

text \<open>
  C6, as the code has it. When the injected object is present and its expiry time is
  past, a poll clears the session id and the token. The query string's identity parameters
  are read on that poll only under \<^verbatim>\<open>debug=true\<close>. Without the flag both fields end
  \<^verbatim>\<open>null\<close> whatever the query string holds, and a poll that returns (no
  \<^verbatim>\<open>URIError\<close>) leaves the session not ready. With the flag, when the pool id, the
  session id and the token of the query string decode and the last two are not empty, the
  poll returns with that session id and token and the session ready.
\<close>

theorem expired_injection_reads_query_only_in_debug:
  assumes "GAME_SESSION e = Some g" and "expired e g"
  shows "(getUrlParameter e ''debug'' \<noteq> Some ''true'' \<longrightarrow>
            sessionId (snd (initFlutterParams e s)) = Null \<and>
            authToken (snd (initFlutterParams e s)) = Null \<and>
            (fst (initFlutterParams e s) = Normal \<longrightarrow> \<not> sessionReady (snd (initFlutterParams e s)))) \<and>
         (getUrlParameter e ''debug'' = Some ''true'' \<and>
          getUrlParameter e ''poolId'' = Some p \<and>
          getUrlParameter e ''sessionId'' = Some i \<and> i \<noteq> [] \<and>
          getUrlParameter e ''authToken'' = Some a \<and> a \<noteq> [] \<longrightarrow>
            fst (initFlutterParams e s) = Normal \<and>
            sessionId (snd (initFlutterParams e s)) = Str i \<and>
            authToken (snd (initFlutterParams e s)) = Str a \<and>
            sessionReady (snd (initFlutterParams e s)))"
proof (intro conjI impI)
  let ?s0 = "request_params e s"
  let ?s1 = "snd (from_injected e g ?s0)"
  note ids = injected_expired [OF assms(2), of ?s0]
  note init = init_injected [OF assms(1)]
  {
    assume inert: "getUrlParameter e ''debug'' \<noteq> Some ''true''"
    note d = debug_inert [OF inert]
    show "sessionId (snd (initFlutterParams e s)) = Null"
      by (simp add: init snd_and_then d ids add_listener_fields ready_step_fields
          split: completion.splits)
    show "authToken (snd (initFlutterParams e s)) = Null"
      by (simp add: init snd_and_then d ids add_listener_fields ready_step_fields
          split: completion.splits)
    assume "fst (initFlutterParams e s) = Normal"
    then show "\<not> sessionReady (snd (initFlutterParams e s))"
      by (simp add: init snd_and_then fst_and_then d ids add_listener_fields
          ready_step_fields split: completion.splits)
  }
  {
    assume act: "getUrlParameter e ''debug'' = Some ''true'' \<and>
          getUrlParameter e ''poolId'' = Some p \<and>
          getUrlParameter e ''sessionId'' = Some i \<and> i \<noteq> [] \<and>
          getUrlParameter e ''authToken'' = Some a \<and> a \<noteq> []"
    have ret: "fst (from_injected e g ?s0) = Normal"
      using act by (simp add: injected_returns)
    have dbg: "debug_step e (add_listener e ?s1) =
       (Normal, emit (ConsoleLog ''DEBUG MODE: Using test parameters'')
        ((add_listener e ?s1)\<lparr>poolId := (if p \<noteq> [] then Str p
                       else if truthy (poolId (add_listener e ?s1)) then poolId (add_listener e ?s1)
                       else Str ''test-pool-123''),
           sessionId := (if i \<noteq> [] then Str i else Str ''test-session-456''),
           authToken := (if a \<noteq> [] then Str a else Str ''test-token-789'')\<rparr>))"
      using act by (intro debug_active) (simp_all add: add_listener_fields ids)
    show "fst (initFlutterParams e s) = Normal"
      by (simp add: init fst_and_then ret dbg)
    show "sessionId (snd (initFlutterParams e s)) = Str i"
      using act by (simp add: init snd_and_then ret dbg ready_step_fields emit_def)
    show "authToken (snd (initFlutterParams e s)) = Str a"
      using act by (simp add: init snd_and_then ret dbg ready_step_fields emit_def)
    show "sessionReady (snd (initFlutterParams e s))"
      using act by (simp add: init snd_and_then ret dbg ready_step_fields emit_def)
  }
qed

theorem expired_injection_reads_query_only_in_debug_witness:
  "GAME_SESSION expired_env = Some expired_session \<and>
   GAME_SESSION expired_debug_env = Some expired_session \<and>
   expired expired_env expired_session \<and> expired expired_debug_env expired_session \<and>
   getUrlParameter expired_env ''debug'' = Some [] \<and>
   getUrlParameter expired_env ''sessionId'' = Some ''x'' \<and>
   \<not> sessionReady (snd (initFlutterParams expired_env usable)) \<and>
   getUrlParameter expired_debug_env ''debug'' = Some ''true'' \<and>
   sessionId (snd (initFlutterParams expired_debug_env initial)) = Str ''x'' \<and>
   authToken (snd (initFlutterParams expired_debug_env initial)) = Str ''y'' \<and>
   sessionReady (snd (initFlutterParams expired_debug_env initial))"
  using expired_injection_reads_query_only_in_debug
          [where e = expired_env and g = expired_session and s = usable]
    expired_injection_reads_query_only_in_debug
          [where e = expired_debug_env and g = expired_session and s = initial
             and p = "[]" and i = "''x''" and a = "''y''"]
  by (simp add: eval_env eval_init usable_def)

text \<open>C6 as stated fails: the injected session expired at 1000 and is read at 2000, the
  query string holds a session id and a token, and the poll returns with both fields
  \<^verbatim>\<open>null\<close> and the session not ready.\<close>

theorem expired_injection_no_query_fallback:
  "GAME_SESSION expired_env = Some expired_session \<and> expired expired_env expired_session \<and>
   getUrlParameter expired_env ''sessionId'' = Some ''x'' \<and>
   getUrlParameter expired_env ''authToken'' = Some ''y'' \<and>
   fst (initFlutterParams expired_env initial) = Normal \<and>
   sessionId (snd (initFlutterParams expired_env initial)) = Null \<and>
   authToken (snd (initFlutterParams expired_env initial)) = Null \<and>
   \<not> sessionReady (snd (initFlutterParams expired_env initial))"
  by (simp add: eval_env eval_init)

text \<open>
  C7, as the code has it. When the debug parameter is not \<^verbatim>\<open>true\<close> the debug path
  changes no global. When it is \<^verbatim>\<open>true\<close> and the session id and the token are both
  empty on reaching the path, each of pool id, session id and token becomes the first
  non-empty of its query-string value, its current value and its placeholder, and the
  session is ready. For a poll with no injected object and no session id or token in the
  query string this gives the placeholder session id and token, and the query string's pool
  id if it has one, else the placeholder.
\<close>

theorem debug_path_prefers_query_over_placeholder:
  "(getUrlParameter e ''debug'' \<noteq> Some ''true'' \<longrightarrow> snd (debug_step e s) = s) \<and>
   (getUrlParameter e ''debug'' = Some ''true'' \<and>
    \<not> truthy (sessionId s) \<and> \<not> truthy (authToken s) \<and>
    getUrlParameter e ''poolId'' = Some p \<and>
    getUrlParameter e ''sessionId'' = Some i \<and>
    getUrlParameter e ''authToken'' = Some a \<longrightarrow>
      debug_step e s =
        (Normal, emit (ConsoleLog ''DEBUG MODE: Using test parameters'')
           (s\<lparr>poolId := (if p \<noteq> [] then Str p else if truthy (poolId s) then poolId s
                          else Str ''test-pool-123''),
              sessionId := (if i \<noteq> [] then Str i else Str ''test-session-456''),
              authToken := (if a \<noteq> [] then Str a else Str ''test-token-789'')\<rparr>)) \<and>
      sessionReady (ready_step (snd (debug_step e s)))) \<and>
   (GAME_SESSION e = None \<and>
    getUrlParameter e ''debug'' = Some ''true'' \<and>
    getUrlParameter e ''poolId'' = Some p \<and>
    getUrlParameter e ''sessionId'' = Some [] \<and>
    getUrlParameter e ''authToken'' = Some [] \<and>
    getUrlParameter e ''timer'' = Some tm \<and>
    getUrlParameter e ''apiServerUrl'' = Some u \<and>
    getUrlParameter e ''apiServer'' = Some u' \<longrightarrow>
      fst (initFlutterParams e s) = Normal \<and>
      poolId (snd (initFlutterParams e s)) = (if p \<noteq> [] then Str p else Str ''test-pool-123'') \<and>
      sessionId (snd (initFlutterParams e s)) = Str ''test-session-456'' \<and>
      authToken (snd (initFlutterParams e s)) = Str ''test-token-789'' \<and>
      sessionReady (snd (initFlutterParams e s)))"
proof (intro conjI impI)
  assume "getUrlParameter e ''debug'' \<noteq> Some ''true''"
  then show "snd (debug_step e s) = s" by (rule debug_inert)
next
  assume a: "getUrlParameter e ''debug'' = Some ''true'' \<and>
    \<not> truthy (sessionId s) \<and> \<not> truthy (authToken s) \<and>
    getUrlParameter e ''poolId'' = Some p \<and>
    getUrlParameter e ''sessionId'' = Some i \<and>
    getUrlParameter e ''authToken'' = Some a"
  then show d: "debug_step e s =
        (Normal, emit (ConsoleLog ''DEBUG MODE: Using test parameters'')
           (s\<lparr>poolId := (if p \<noteq> [] then Str p else if truthy (poolId s) then poolId s
                          else Str ''test-pool-123''),
              sessionId := (if i \<noteq> [] then Str i else Str ''test-session-456''),
              authToken := (if a \<noteq> [] then Str a else Str ''test-token-789'')\<rparr>))"
    by (intro debug_active) simp_all
  show "sessionReady (ready_step (snd (debug_step e s)))"
    by (simp add: d ready_step_fields emit_def)
next
  assume a: "GAME_SESSION e = None \<and>
    getUrlParameter e ''debug'' = Some ''true'' \<and>
    getUrlParameter e ''poolId'' = Some p \<and>
    getUrlParameter e ''sessionId'' = Some [] \<and>
    getUrlParameter e ''authToken'' = Some [] \<and>
    getUrlParameter e ''timer'' = Some tm \<and>
    getUrlParameter e ''apiServerUrl'' = Some u \<and>
    getUrlParameter e ''apiServer'' = Some u'"
  let ?s1 = "add_listener e (snd (from_url e (request_params e s)))"
  have url: "fst (from_url e (request_params e s)) = Normal"
    "poolId ?s1 = Str p" "sessionId ?s1 = Str []" "authToken ?s1 = Str []"
    using a url_returns [of e p "[]" "[]" tm u u' "request_params e s"]
    by (simp_all add: add_listener_fields)
  have d: "debug_step e ?s1 =
        (Normal, emit (ConsoleLog ''DEBUG MODE: Using test parameters'')
           (?s1\<lparr>poolId := (if p \<noteq> [] then Str p else if truthy (poolId ?s1) then poolId ?s1
                          else Str ''test-pool-123''),
              sessionId := (if [] \<noteq> ([]::string) then Str [] else Str ''test-session-456''),
              authToken := (if [] \<noteq> ([]::string) then Str [] else Str ''test-token-789'')\<rparr>))"
    using a by (intro debug_active) (simp_all add: url)
  have init: "initFlutterParams e s =
     and_then (from_url e (request_params e s))
       (\<lambda>s. and_then (debug_step e (add_listener e s)) (\<lambda>s. (Normal, ready_step s)))"
    using a by (simp add: init_url)
  show "fst (initFlutterParams e s) = Normal"
    by (simp add: init fst_and_then url d)
  show "poolId (snd (initFlutterParams e s)) = (if p \<noteq> [] then Str p else Str ''test-pool-123'')"
    by (simp add: init snd_and_then url d ready_step_fields emit_def)
  show "sessionId (snd (initFlutterParams e s)) = Str ''test-session-456''"
    by (simp add: init snd_and_then url d ready_step_fields emit_def)
  show "authToken (snd (initFlutterParams e s)) = Str ''test-token-789''"
    by (simp add: init snd_and_then url d ready_step_fields emit_def)
  show "sessionReady (snd (initFlutterParams e s))"
    by (simp add: init snd_and_then url d ready_step_fields emit_def)
qed

theorem debug_path_prefers_query_over_placeholder_witness:
  "getUrlParameter query_env ''debug'' = Some [] \<and>
   snd (debug_step query_env usable) = usable \<and>
   GAME_SESSION debug_env = None \<and>
   getUrlParameter debug_env ''debug'' = Some ''true'' \<and>
   getUrlParameter debug_env ''sessionId'' = Some [] \<and>
   getUrlParameter debug_env ''authToken'' = Some [] \<and>
   poolId (snd (initFlutterParams debug_env initial)) = Str ''test-pool-123'' \<and>
   sessionId (snd (initFlutterParams debug_env initial)) = Str ''test-session-456'' \<and>
   authToken (snd (initFlutterParams debug_env initial)) = Str ''test-token-789'' \<and>
   sessionReady (snd (initFlutterParams debug_env initial))"
  using debug_path_prefers_query_over_placeholder [where e = query_env and s = usable]
    debug_path_prefers_query_over_placeholder
      [where e = debug_env and s = initial and p = "[]" and i = "[]" and a = "[]"
         and tm = "[]" and u = "[]" and u' = "[]"]
  by (simp add: eval_env eval_init usable_def)

text \<open>C7 as stated fails: the query string is \<^verbatim>\<open>?debug=true&poolId=real-pool\<close>, no
  session id and no token are resolved, and the poll ends ready with the pool id of the
  query string, not the placeholder.\<close>

theorem debug_pool_id_is_not_the_placeholder:
  "GAME_SESSION debug_pool_env = None \<and>
   getUrlParameter debug_pool_env ''debug'' = Some ''true'' \<and>
   getUrlParameter debug_pool_env ''sessionId'' = Some [] \<and>
   getUrlParameter debug_pool_env ''authToken'' = Some [] \<and>
   fst (initFlutterParams debug_pool_env initial) = Normal \<and>
   poolId (snd (initFlutterParams debug_pool_env initial)) = Str ''real-pool'' \<and>
   sessionReady (snd (initFlutterParams debug_pool_env initial))"
  by (simp add: eval_env eval_init)

text \<open>
  C8, as the code has it. A poll adds the request signal to the trace at most once, and
  exactly when there is no injected object, the session id and the token are both empty
  as the poll starts (before the query string is read), and a channel to the host exists:
  the parent frame, else the in-app web view. A polling cycle adds what its poll adds.
\<close>

theorem request_signal_decided_before_resolution:
  "filter is_request (out (snd (initFlutterParams e s))) =
     filter is_request (out s) @
     (if GAME_SESSION e = None \<and> \<not> truthy (sessionId s) \<and> \<not> truthy (authToken s)
      then if in_frame e then [ParentPostMessage request_message]
           else if webview e then [CallHandler ''requestSessionParams'' None]
           else []
      else []) \<and>
   filter is_request (out (snd (checkSessionAndUpdateUI e s))) =
     filter is_request (out (snd (initFlutterParams e s)))"
  by (simp add: requests_after_request_params requests_request_params
      checkSessionAndUpdateUI_def snd_and_then setTimeout_def split: completion.splits)

theorem request_signal_decided_before_resolution_witness:
  "GAME_SESSION waiting_env = None \<and>
   \<not> truthy (sessionId initial) \<and> \<not> truthy (authToken initial) \<and>
   filter is_request (out (snd (initFlutterParams waiting_env initial))) =
     [CallHandler ''requestSessionParams'' None] \<and>
   filter is_request (out (snd (initFlutterParams waiting_env usable))) = []"
  using request_signal_decided_before_resolution [of waiting_env initial]
    request_signal_decided_before_resolution [of waiting_env usable]
  by (simp add: waiting_env_def initial_def usable_def)

text \<open>C8 as stated fails: on the first poll, with no injected object, the query string
  yields both identity fields and the poll takes them, yet the signal is sent.\<close>

theorem request_signal_despite_query_identity:
  "GAME_SESSION query_env = None \<and>
   getUrlParameter query_env ''sessionId'' = Some ''x'' \<and>
   getUrlParameter query_env ''authToken'' = Some ''y'' \<and>
   sessionId (snd (initFlutterParams query_env initial)) = Str ''x'' \<and>
   authToken (snd (initFlutterParams query_env initial)) = Str ''y'' \<and>
   filter is_request (out (snd (initFlutterParams query_env initial))) =
     [ParentPostMessage request_message]"
  by (simp add: eval_env eval_init)

text \<open>One taken call of \<^verbatim>\<open>pause\<close>, its window and its callback, from any state the guards
  of view.js 221 and 254 let through.\<close>

lemma pause_window:
  assumes "pausable s" and "gameState s \<noteq> Some 0" and "gameState s \<noteq> Some 2"
    and "gameState s \<noteq> Some (- 2)"
  shows "let s1 = pause o1 t s;
             s2 = snd (fire e (length (timeouts s)) s1)
         in timeouts s1 = timeouts s @
              [(t + 400, if gameState s = Some (- 1) then ResumeSettle else PauseSettle)] \<and>
            \<not> pausable s1 \<and> gameState s1 = Some (- 1) \<and>
            (\<forall>o2 t2. pause o2 t2 s1 = s1) \<and> (\<forall>t2. handlePause t2 s1 = s1) \<and>
            pausable s2 \<and> timeouts s2 = timeouts s \<and>
            gameState s2 = (if gameState s = Some (- 1) then prevGameState s else Some (- 1)) \<and>
            prevGameState s2 = (if gameState s = Some (- 1) then prevGameState s else gameState s)"
proof (cases "gameState s = Some (- 1)")
  case False
  have s1: "pause o1 t s = (pause_snapshot t s)\<lparr>pausable := False,
        out := out s @ [WriteHighScores], prevGameState := gameState s,
        timeouts := timeouts s @ [(t + 400, PauseSettle)], gameState := Some (- 1)\<rparr>"
    using assms(1,2,3) False assms(4) by (rule pause_taken)
  have np: "\<not> pausable (pause o1 t s)" by (simp add: s1)
  show ?thesis
    using False pause_dropped [OF np] handlePause_dropped [OF np]
    by (simp add: Let_def s1 fire_last run_callback_def)
next
  case True
  have s1: "pause o1 t s = (resume_adjust t s)\<lparr>pausable := False,
        out := out s @ [WriteHighScores],
        timeouts := timeouts s @ [(t + 400, ResumeSettle)]\<rparr>"
    using assms(1) True by (rule resume_taken)
  have np: "\<not> pausable (pause o1 t s)" by (simp add: s1)
  show ?thesis
    using True pause_dropped [OF np] handlePause_dropped [OF np]
    by (simp add: Let_def s1 fire_last run_callback_def resume_adjust_state)
qed

text \<open>
  C9. A game in play is paused and later resumed. Each of the two calls clears
  \<open>pausable\<close> and queues one callback due 400 ms later. Until that callback runs, every
  call of \<^verbatim>\<open>pause\<close> and of \<^verbatim>\<open>handlePause\<close> returns the globals, the queue and the
  trace as they are: the request is dropped and nothing is queued. When the callback of the
  pause runs, \<open>pausable\<close> is set again and the state is Paused (\<open>-1\<close>); when the callback
  of the resume runs, \<open>pausable\<close> is set again and the state is Playing (\<open>1\<close>).
\<close>

theorem transition_window_drops_requests:
  assumes "pausable s" and "gameState s = Some 1"
  shows "let s1 = pause o1 t1 s;
             s2 = snd (fire e (length (timeouts s)) s1);
             s3 = pause o3 t3 s2;
             s4 = snd (fire e (length (timeouts s)) s3)
         in timeouts s1 = timeouts s @ [(t1 + 400, PauseSettle)] \<and>
            \<not> pausable s1 \<and> gameState s1 = Some (- 1) \<and>
            (\<forall>o2 t2. pause o2 t2 s1 = s1) \<and> (\<forall>t2. handlePause t2 s1 = s1) \<and>
            pausable s2 \<and> timeouts s2 = timeouts s \<and> gameState s2 = Some (- 1) \<and>
            timeouts s3 = timeouts s @ [(t3 + 400, ResumeSettle)] \<and>
            \<not> pausable s3 \<and> gameState s3 = Some (- 1) \<and>
            (\<forall>o2 t2. pause o2 t2 s3 = s3) \<and> (\<forall>t2. handlePause t2 s3 = s3) \<and>
            pausable s4 \<and> timeouts s4 = timeouts s \<and> gameState s4 = Some 1"
proof -
  let ?s1 = "pause o1 t1 s"
  let ?s2 = "snd (fire e (length (timeouts s)) ?s1)"
  let ?s3 = "pause o3 t3 ?s2"
  let ?s4 = "snd (fire e (length (timeouts s)) ?s3)"
  have first: "timeouts ?s1 = timeouts s @ [(t1 + 400, PauseSettle)]"
    "\<not> pausable ?s1" "gameState ?s1 = Some (- 1)"
    "\<forall>o2 t2. pause o2 t2 ?s1 = ?s1" "\<forall>t2. handlePause t2 ?s1 = ?s1"
    "pausable ?s2" "timeouts ?s2 = timeouts s" "gameState ?s2 = Some (- 1)"
    "prevGameState ?s2 = Some 1"
    using pause_window [of s o1 t1 e] assms by (simp_all add: Let_def)
  have second: "timeouts ?s3 = timeouts s @ [(t3 + 400, ResumeSettle)]"
    "\<not> pausable ?s3" "gameState ?s3 = Some (- 1)"
    "\<forall>o2 t2. pause o2 t2 ?s3 = ?s3" "\<forall>t2. handlePause t2 ?s3 = ?s3"
    "pausable ?s4" "timeouts ?s4 = timeouts s" "gameState ?s4 = Some 1"
    using pause_window [of ?s2 o3 t3 e] first(6,7,8,9) by (simp_all add: Let_def)
  show ?thesis
    unfolding Let_def using first(1-8) second by blast
qed

text \<open>Pause at 5000, a second request at 5100 is dropped, the callback runs; resume at
  8000, a request at 8100 is dropped, the callback runs and the game is in play again.\<close>

theorem transition_window_drops_requests_witness:
  "pausable playing \<and> gameState playing = Some 1 \<and>
   pause False 5100 (pause False 5000 playing) = pause False 5000 playing \<and>
   gameState (snd (fire waiting_env 0 (pause False 5000 playing))) = Some (- 1) \<and>
   pausable (snd (fire waiting_env 0 (pause False 5000 playing))) \<and>
   pause False 8100 (pause False 8000 (snd (fire waiting_env 0 (pause False 5000 playing)))) =
     pause False 8000 (snd (fire waiting_env 0 (pause False 5000 playing))) \<and>
   gameState (snd (fire waiting_env 0
     (pause False 8000 (snd (fire waiting_env 0 (pause False 5000 playing)))))) = Some 1"
proof -
  have h: "pausable playing" "gameState playing = Some 1"
    by (simp_all add: playing_def initial_def)
  have l: "length (timeouts playing) = 0"
    by (simp add: playing_def initial_def)
  note c = transition_window_drops_requests
             [where s = playing and ?o1.0 = False and ?t1.0 = 5000 and e = waiting_env
                and ?o3.0 = False and ?t3.0 = 8000, OF h, unfolded Let_def l]
  show ?thesis using h c by simp
qed

text \<open>
  C10. When the pool id is empty at game over the submission only logs that the score is
  not submitted, also with a session id and a token present: the trace gains no request
  and no message to the host, and no global changes.
\<close>

theorem no_request_without_pool:
  assumes "\<not> truthy (poolId s)"
  shows "submitScoreToFlutter s =
           emit (ConsoleLog ''Flutter parameters not available. Score not submitted.'') s \<and>
         filter is_fetch (out (submitScoreToFlutter s)) = filter is_fetch (out s) \<and>
         filter host_message (out (submitScoreToFlutter s)) = filter host_message (out s)"
  using assms by (simp add: submit_skipped out_emit)

theorem no_request_without_pool_witness:
  "truthy (sessionId no_pool) \<and> truthy (authToken no_pool) \<and> \<not> truthy (poolId no_pool) \<and>
   out (submitScoreToFlutter no_pool) =
     [ConsoleLog ''Flutter parameters not available. Score not submitted.'']"
  using no_request_without_pool [of no_pool]
  by (simp add: no_pool_def initial_def emit_def)

end
